theory Spec2Isabelle
  imports Complex_Main "HOL-Library.Char_ord" "HOL-Library.List_Lexorder" "HOL-Library.Sublist"
begin

section \<open>SmartCleaner: a shallow embedding of \<open>src/main.py\<close>\<close>

text \<open>
  The program is one class, \<open>SmartCleaner\<close>, with a constructor, six methods and a driver.
  Every method is a short sequence of calls into pandas. The embedding therefore has two
  layers:
  \<^item> the pandas and Python primitives the methods call (\<open>mean\<close>, \<open>mode\<close>, \<open>fillna\<close>,
    \<open>drop_duplicates\<close>, \<open>is_string_dtype\<close>, \<open>str.title\<close>, \<open>to_datetime\<close>, \<open>to_csv\<close>),
    modelled as documented for pandas 2.x run without copy-on-write, the setting in which
    the chained \<open>self.data[column].fillna(..., inplace=True)\<close> of the source updates the
    frame;
  \<^item> the methods of the class, translated line by line over those primitives, with the
    object \<open>self\<close> passed in and returned, printed lines collected in a list, and an
    exception that no \<open>except\<close> clause catches returned as \<open>Inl\<close>.

  Idealisations, each stated where it is made: a \<open>float64\<close> value is a real number and
  \<open>NaN\<close> is the missing cell; text is ASCII; the file system and the CSV parser are a
  parameter (\<open>world\<close>) that says what \<open>pd.read_csv\<close> returns or raises for a path and
  whether a write to a path fails.
\<close>

subsection \<open>Data model: columns, frames, rows\<close>

text \<open>
  A pandas column has one dtype. \<open>int64\<close> and \<open>bool\<close> arrays cannot hold a missing value;
  \<open>float64\<close> holds \<open>NaN\<close>, \<open>object\<close> holds \<open>NaN\<close>/\<open>None\<close> beside its strings, and
  \<open>datetime64[ns]\<close> holds \<open>NaT\<close> beside its timestamps (nanoseconds since the epoch).
  A missing cell is \<open>None\<close>.
\<close>

type_synonym timestamp = int

datatype column =
    Float64 "real option list"
  | Int64 "int list"
  | Boolean "bool list"
  | Object "string option list"
  | Datetime64 "timestamp option list"

datatype scalar = F real | I int | B bool | S string | T timestamp

type_synonym dataframe = "(string \<times> column) list"

fun cells :: "column \<Rightarrow> scalar option list" where
  "cells (Float64 xs) = map (map_option F) xs"
| "cells (Int64 xs) = map (\<lambda>x. Some (I x)) xs"
| "cells (Boolean xs) = map (\<lambda>x. Some (B x)) xs"
| "cells (Object xs) = map (map_option S) xs"
| "cells (Datetime64 xs) = map (map_option T) xs"

definition col_len :: "column \<Rightarrow> nat" where
  "col_len c = length (cells c)"

text \<open>\<open>df.shape[0]\<close>: the number of rows.\<close>

definition shape0 :: "dataframe \<Rightarrow> nat" where
  "shape0 df = (case df of [] \<Rightarrow> 0 | (n, c) # _ \<Rightarrow> col_len c)"

text \<open>A frame as pandas builds it: every column has the frame's number of rows.\<close>

definition wf_frame :: "dataframe \<Rightarrow> bool" where
  "wf_frame df = list_all (\<lambda>(n, c). col_len c = shape0 df) df"

definition row :: "dataframe \<Rightarrow> nat \<Rightarrow> scalar option list" where
  "row df i = map (\<lambda>(n, c). cells c ! i) df"

definition rows :: "dataframe \<Rightarrow> scalar option list list" where
  "rows df = map (row df) [0..<shape0 df]"

primrec dropna :: "'a option list \<Rightarrow> 'a list" where
  "dropna [] = []"
| "dropna (c # cs) = (case c of None \<Rightarrow> dropna cs | Some x \<Rightarrow> x # dropna cs)"

text \<open>\<open>series.isnull().sum()\<close>: the number of missing cells of a column.\<close>

definition isnull_sum :: "column \<Rightarrow> nat" where
  "isnull_sum c = length (filter (\<lambda>x. x = None) (cells c))"

definition has_value :: "column \<Rightarrow> bool" where
  "has_value c = (dropna (cells c) \<noteq> [])"

subsection \<open>pandas primitives\<close>

text \<open>
  \<open>Series.mean()\<close> skips missing cells; over no value at all it is \<open>NaN\<close>. The sum and the
  quotient are exact here, where \<open>float64\<close> rounds.
\<close>

definition mean :: "real option list \<Rightarrow> real option" where
  "mean xs = (let vs = dropna xs in
     if vs = [] then None else Some (sum_list vs / real (length vs)))"

text \<open>
  \<open>Series.mode()\<close> drops missing cells, keeps the values whose count is the highest, and
  returns them sorted (\<open>np.sort\<close>; strings compare by code point, which is the
  lexicographic order of their bytes). Over no value at all the result is empty.
\<close>

definition max_count :: "'a list \<Rightarrow> nat" where
  "max_count vs = foldr max (map (count_list vs) vs) 0"

definition mode :: "'a::linorder option list \<Rightarrow> 'a list" where
  "mode xs = (let vs = dropna xs in
     sort (remdups (filter (\<lambda>v. count_list vs v = max_count vs) vs)))"

text \<open>
  \<open>Series.fillna(value)\<close>: every missing cell becomes \<open>value\<close>. The value is itself a
  cell, because the source may pass \<open>NaN\<close> (the mean of a column with no value), which
  fills nothing.
\<close>

definition fillna :: "'a option \<Rightarrow> 'a option list \<Rightarrow> 'a option list" where
  "fillna v xs = map (\<lambda>c. case c of None \<Rightarrow> v | Some x \<Rightarrow> Some x) xs"

text \<open>
  \<open>DataFrame.duplicated(keep='first')\<close> scans the rows in order with a table of the rows
  seen so far and marks a row that is already in the table; two missing cells count as
  equal. \<open>drop_duplicates\<close> keeps the unmarked rows of every column.
\<close>

fun duplicated_from :: "'a list \<Rightarrow> 'a list \<Rightarrow> bool list" where
  "duplicated_from seen [] = []"
| "duplicated_from seen (r # rs) = (r \<in> set seen) # duplicated_from (r # seen) rs"

definition duplicated :: "dataframe \<Rightarrow> bool list" where
  "duplicated df = duplicated_from [] (rows df)"

definition take_mask :: "bool list \<Rightarrow> 'a list \<Rightarrow> 'a list" where
  "take_mask ms xs = map snd (filter fst (zip ms xs))"

fun select_rows :: "bool list \<Rightarrow> column \<Rightarrow> column" where
  "select_rows ms (Float64 xs) = Float64 (take_mask ms xs)"
| "select_rows ms (Int64 xs) = Int64 (take_mask ms xs)"
| "select_rows ms (Boolean xs) = Boolean (take_mask ms xs)"
| "select_rows ms (Object xs) = Object (take_mask ms xs)"
| "select_rows ms (Datetime64 xs) = Datetime64 (take_mask ms xs)"

definition drop_duplicates :: "dataframe \<Rightarrow> dataframe" where
  "drop_duplicates df =
     (let keep = map Not (duplicated df) in map (\<lambda>(n, c). (n, select_rows keep c)) df)"

text \<open>
  Python's \<open>str.title()\<close>, on ASCII: a character that follows a cased character (a letter)
  is lowercased, any other character is uppercased; so a word starts after every
  character that is not a letter, not only after white space. \<open>Series.str.title()\<close>
  applies it to every string and leaves a missing cell missing.
\<close>

definition is_lower :: "char \<Rightarrow> bool" where
  "is_lower c = (97 \<le> (of_char c :: nat) \<and> (of_char c :: nat) \<le> 122)"

definition is_upper :: "char \<Rightarrow> bool" where
  "is_upper c = (65 \<le> (of_char c :: nat) \<and> (of_char c :: nat) \<le> 90)"

definition is_cased :: "char \<Rightarrow> bool" where
  "is_cased c = (is_lower c \<or> is_upper c)"

definition upper :: "char \<Rightarrow> char" where
  "upper c = (if is_lower c then char_of ((of_char c :: nat) - 32) else c)"

definition lower :: "char \<Rightarrow> char" where
  "lower c = (if is_upper c then char_of ((of_char c :: nat) + 32) else c)"

fun title_from :: "bool \<Rightarrow> string \<Rightarrow> string" where
  "title_from previous_is_cased [] = []"
| "title_from previous_is_cased (c # cs) =
     (if previous_is_cased then lower c else upper c) # title_from (is_cased c) cs"

definition title :: "string \<Rightarrow> string" where
  "title s = title_from False s"

definition str_title :: "string option list \<Rightarrow> string option list" where
  "str_title xs = map (map_option title) xs"

text \<open>
  \<open>pd.api.types.is_datetime64_any_dtype\<close> holds of a \<open>datetime64\<close> column only.
  \<open>pd.api.types.is_string_dtype\<close>, given an \<open>object\<close> column, holds when every element is
  a string (pandas 2.0 on: a column with a missing cell is not a string column; an empty
  one is); it fails for the numeric, boolean and datetime dtypes.
\<close>

fun is_datetime64_any_dtype :: "column \<Rightarrow> bool" where
  "is_datetime64_any_dtype (Datetime64 ts) = True"
| "is_datetime64_any_dtype _ = False"

fun is_string_dtype :: "column \<Rightarrow> bool" where
  "is_string_dtype (Object xs) = list_all (\<lambda>x. x \<noteq> None) xs"
| "is_string_dtype _ = False"

text \<open>
  \<open>pd.to_datetime(series, errors='coerce')\<close> on a column that is already \<open>datetime64\<close>:
  a timestamp converts to itself and \<open>NaT\<close> stays \<open>NaT\<close>. Such a column holds nothing
  else, so nothing is there to coerce.
\<close>

definition to_datetime_coerce :: "timestamp option list \<Rightarrow> timestamp option list" where
  "to_datetime_coerce ts = map (\<lambda>t. case t of None \<Rightarrow> None | Some v \<Rightarrow> Some v) ts"

subsection \<open>Exceptions, output and the outside world\<close>

datatype exc_class =
    FileNotFoundError | EmptyDataError | ParserError
  | PermissionError | IsADirectoryError | UnicodeDecodeError | OSError
  | KeyError

text \<open>An exception is its class and its message \<open>str(e)\<close>.\<close>

type_synonym exception = "exc_class \<times> string"

datatype printed =
    Line string
  | Info dataframe
  | Describe dataframe
  | Missing "(string \<times> nat) list"

datatype csv_field = Index nat | Name string | Cell "scalar option"

text \<open>
  The world: what \<open>pd.read_csv\<close> does for each path (the frame it parses, or the exception
  it raises), whether a write to a path fails and with which exception, and the records
  of the files written so far.
\<close>

record world =
  pd_read_csv :: "string \<Rightarrow> exception + dataframe"
  write_error :: "string \<Rightarrow> exception option"
  disk :: "string \<Rightarrow> csv_field list list option"

text \<open>\<open>str(n)\<close> for an integer.\<close>

fun str_nat :: "nat \<Rightarrow> string" where
  "str_nat n = (if n < 10 then [char_of (48 + n)]
     else str_nat (n div 10) @ [char_of (48 + n mod 10)])"

declare str_nat.simps [simp del]

definition str_int :: "int \<Rightarrow> string" where
  "str_int i = (if i < 0 then CHR ''-'' # str_nat (nat (- i)) else str_nat (nat i))"

text \<open>
  \<open>DataFrame.to_csv(path, index=...)\<close>: the header record with the column names, then one
  record per row; with \<open>index=True\<close> every record starts with an extra field (empty in
  the header, the row label below). A failing write raises and leaves the files alone.
\<close>

definition csv_records :: "dataframe \<Rightarrow> bool \<Rightarrow> csv_field list list" where
  "csv_records df index =
     ((if index then [Name []] else []) @ map (\<lambda>(n, c). Name n) df) #
     map (\<lambda>i. (if index then [Index i] else []) @ map Cell (row df i)) [0..<shape0 df]"

definition to_csv :: "world \<Rightarrow> dataframe \<Rightarrow> string \<Rightarrow> bool \<Rightarrow> exception + world" where
  "to_csv w df path index =
     (case write_error w path of
        Some e \<Rightarrow> Inl e
      | None \<Rightarrow> Inr (w\<lparr>disk := (disk w)(path \<mapsto> csv_records df index)\<rparr>))"

subsection \<open>The class \<open>SmartCleaner\<close>\<close>

record cleaner =
  file_path :: string
  data :: "dataframe option"

text \<open>
  \<open>__init__\<close>: three \<open>except\<close> clauses, one per exception class; an exception of any
  other class leaves the constructor.
\<close>

definition init :: "world \<Rightarrow> string \<Rightarrow> exception + (cleaner \<times> printed list)" where
  "init w path =
     (case pd_read_csv w path of
        Inr df \<Rightarrow> Inr (\<lparr>file_path = path, data = Some df\<rparr>, [Line ''Data successfully loaded.''])
      | Inl (cls, msg) \<Rightarrow>
          if cls = FileNotFoundError then
            Inr (\<lparr>file_path = path, data = None\<rparr>, [Line (''Error: File not found at '' @ path)])
          else if cls = EmptyDataError then
            Inr (\<lparr>file_path = path, data = None\<rparr>, [Line ''Error: The file is empty.''])
          else if cls = ParserError then
            Inr (\<lparr>file_path = path, data = None\<rparr>, [Line ''Error: Could not parse the file.''])
          else Inl (cls, msg))"

definition summarize_data :: "cleaner \<Rightarrow> cleaner \<times> printed list" where
  "summarize_data self =
     (case data self of
        Some df \<Rightarrow>
          (self, [Line ''Dataset Summary:'', Line ''==================================='',
                  Info df, Line ''None'', Line ''Descriptive Statistics:'', Describe df])
      | None \<Rightarrow> (self, [Line ''No data to summarize.'']))"

definition identify_missing_values :: "cleaner \<Rightarrow> cleaner \<times> printed list" where
  "identify_missing_values self =
     (case data self of
        Some df \<Rightarrow>
          (let missing_values = map (\<lambda>(n, c). (n, isnull_sum c)) df in
           (self, [Line ''Missing Values Summary:'', Line ''==================================='',
                   Missing (filter (\<lambda>(n, k). k > 0) missing_values)]))
      | None \<Rightarrow> (self, [Line ''No data to analyze for missing values.'']))"

text \<open>
  The body of the loop of \<open>handle_missing_values\<close> for one column. \<open>float64\<close> and \<open>int64\<close>
  take the mean branch (an \<open>int64\<close> column has no missing cell to fill); every other dtype
  takes \<open>mode()[0]\<close>, which raises \<open>KeyError\<close> when the mode is empty.
\<close>

definition mode0 :: "'a::linorder option list \<Rightarrow> exception + 'a" where
  "mode0 xs = (case mode xs of [] \<Rightarrow> Inl (KeyError, ''0'') | m # _ \<Rightarrow> Inr m)"

fun impute_column :: "column \<Rightarrow> exception + column" where
  "impute_column (Float64 xs) = Inr (Float64 (fillna (mean xs) xs))"
| "impute_column (Int64 xs) = Inr (Int64 xs)"
| "impute_column (Boolean xs) =
     (case mode0 (map Some xs) of Inl e \<Rightarrow> Inl e | Inr m \<Rightarrow> Inr (Boolean xs))"
| "impute_column (Object xs) =
     (case mode0 xs of Inl e \<Rightarrow> Inl e | Inr m \<Rightarrow> Inr (Object (fillna (Some m) xs)))"
| "impute_column (Datetime64 xs) =
     (case mode0 xs of Inl e \<Rightarrow> Inl e | Inr m \<Rightarrow> Inr (Datetime64 (fillna (Some m) xs)))"

fun impute_columns :: "dataframe \<Rightarrow> exception + dataframe" where
  "impute_columns [] = Inr []"
| "impute_columns ((n, c) # rest) =
     (case impute_column c of
        Inl e \<Rightarrow> Inl e
      | Inr c' \<Rightarrow> (case impute_columns rest of Inl e \<Rightarrow> Inl e | Inr rest' \<Rightarrow> Inr ((n, c') # rest')))"

definition handle_missing_values :: "cleaner \<Rightarrow> exception + (cleaner \<times> printed list)" where
  "handle_missing_values self =
     (case data self of
        Some df \<Rightarrow>
          (case impute_columns df of
             Inl e \<Rightarrow> Inl e
           | Inr df' \<Rightarrow>
               Inr (self\<lparr>data := Some df'\<rparr>, [Line ''Missing values handled by mean/mode imputation.'']))
      | None \<Rightarrow> Inr (self, [Line ''No data to handle missing values.'']))"

definition remove_duplicates :: "cleaner \<Rightarrow> cleaner \<times> printed list" where
  "remove_duplicates self =
     (case data self of
        Some df \<Rightarrow>
          (let initial_rows = shape0 df;
               df' = drop_duplicates df;
               final_rows = shape0 df'
           in (self\<lparr>data := Some df'\<rparr>,
               [Line (''Duplicates removed: '' @ str_int (int initial_rows - int final_rows))]))
      | None \<Rightarrow> (self, [Line ''No data from which to remove duplicates.'']))"

definition fix_column :: "column \<Rightarrow> column" where
  "fix_column c =
     (if is_datetime64_any_dtype c then
        (case c of Datetime64 ts \<Rightarrow> Datetime64 (to_datetime_coerce ts) | _ \<Rightarrow> c)
      else if is_string_dtype c then
        (case c of Object xs \<Rightarrow> Object (str_title xs) | _ \<Rightarrow> c)
      else c)"

definition fix_inconsistent_formats :: "cleaner \<Rightarrow> cleaner \<times> printed list" where
  "fix_inconsistent_formats self =
     (case data self of
        Some df \<Rightarrow>
          (self\<lparr>data := Some (map (\<lambda>(n, c). (n, fix_column c)) df)\<rparr>,
           [Line ''Inconsistent formats fixed where applicable.''])
      | None \<Rightarrow> (self, [Line ''No data to fix formats.'']))"

text \<open>\<open>save_clean_data\<close>: \<open>except Exception as e\<close> catches whatever the write raises.\<close>

definition save_clean_data :: "world \<Rightarrow> cleaner \<Rightarrow> string \<Rightarrow> world \<times> cleaner \<times> printed list" where
  "save_clean_data w self output_path =
     (case data self of
        Some df \<Rightarrow>
          (case to_csv w df output_path False of
             Inr w' \<Rightarrow> (w', self, [Line (''Cleaned data saved to '' @ output_path)])
           | Inl (cls, msg) \<Rightarrow> (w, self, [Line (''Error when saving data: '' @ msg)]))
      | None \<Rightarrow> (w, self, [Line ''No data to save.'']))"

text \<open>
  The driver. \<open>Inr\<close> is a run that reaches the end of the script (exit code 0), with the
  final world and everything printed; \<open>Inl\<close> is a run ended by an uncaught exception.
\<close>

definition main :: "world \<Rightarrow> exception + (world \<times> printed list)" where
  "main w =
     (case init w ''path_to_dirty_dataset.csv'' of
        Inl e \<Rightarrow> Inl e
      | Inr (c0, o0) \<Rightarrow>
          (let (c1, o1) = summarize_data c0;
               (c2, o2) = identify_missing_values c1
           in case handle_missing_values c2 of
                Inl e \<Rightarrow> Inl e
              | Inr (c3, o3) \<Rightarrow>
                  (let (c4, o4) = remove_duplicates c3;
                       (c5, o5) = fix_inconsistent_formats c4;
                       (w', c6, o6) = save_clean_data w c5 ''path_to_clean_dataset.csv''
                   in Inr (w', o0 @ o1 @ o2 @ o3 @ o4 @ o5 @ o6))))"

subsection \<open>Notions of the specification\<close>

text \<open>
  The rows that are not an exact copy of an earlier row, in their order: row \<open>i\<close> stays
  exactly when no row before it is equal to it.
\<close>

definition first_occurrences :: "'a list \<Rightarrow> 'a list" where
  "first_occurrences rs =
     map (\<lambda>i. rs ! i) (filter (\<lambda>i. rs ! i \<notin> set (take i rs)) [0..<length rs])"

text \<open>
  The dtype test of \<open>handle_missing_values\<close>, \<open>dtype in [np.float64, np.int64]\<close>: the
  columns that take the mean branch.
\<close>

fun numeric :: "column \<Rightarrow> bool" where
  "numeric (Float64 xs) = True"
| "numeric (Int64 xs) = True"
| "numeric _ = False"

text \<open>The arithmetic mean of a list of values, and a value that no other value outnumbers.\<close>

definition arithmetic_mean :: "real list \<Rightarrow> real" where
  "arithmetic_mean vs = sum_list vs / real (length vs)"

definition most_frequent :: "'a list \<Rightarrow> 'a \<Rightarrow> bool" where
  "most_frequent vs m = (m \<in> set vs \<and> (\<forall>v \<in> set vs. count_list vs v \<le> count_list vs m))"

text \<open>The smallest of the most frequent values, in the order of the values.\<close>

definition smallest_most_frequent :: "'a::linorder list \<Rightarrow> 'a" where
  "smallest_most_frequent vs = Min (set (filter (most_frequent vs) vs))"

definition replace_missing :: "'a \<Rightarrow> 'a option list \<Rightarrow> 'a option list" where
  "replace_missing v xs = map (\<lambda>c. case c of None \<Rightarrow> Some v | Some x \<Rightarrow> Some x) xs"


text \<open>The same with the tie between several most frequent values settled: the smallest.\<close>

fun impute_spec :: "column \<Rightarrow> column" where
  "impute_spec (Float64 xs) = Float64 (replace_missing (arithmetic_mean (dropna xs)) xs)"
| "impute_spec (Int64 xs) = Int64 xs"
| "impute_spec (Boolean xs) = Boolean xs"
| "impute_spec (Object xs) = Object (replace_missing (smallest_most_frequent (dropna xs)) xs)"
| "impute_spec (Datetime64 xs) = Datetime64 (replace_missing (smallest_most_frequent (dropna xs)) xs)"

text \<open>
  Every column that takes the mode branch has a present value. So it is in every frame
  that \<open>pd.read_csv\<close> builds from a file with at least one row, where a column without a
  value is inferred as \<open>float64\<close>.
\<close>

definition mode_defined :: "dataframe \<Rightarrow> bool" where
  "mode_defined df = list_all (\<lambda>(n, c). has_value c \<or> numeric c) df"






subsection \<open>Example data\<close>

text \<open>The rows \<open>(1, "x"), (2, "y"), (1, "x")\<close>.\<close>

definition frame_xyx :: dataframe where
  "frame_xyx = [(''id'', Int64 [1, 2, 1]), (''tag'', Object [Some ''x'', Some ''y'', Some ''x''])]"

text \<open>
  A world in which \<open>pd.read_csv\<close> succeeds for \<open>ok.csv\<close>, raises each of the three
  handled exceptions for one path, raises \<open>PermissionError\<close> for \<open>locked.csv\<close>, and in
  which a write below \<open>/ro/\<close> is refused.
\<close>

definition world_sample :: world where
  "world_sample =
     \<lparr>pd_read_csv = (\<lambda>p.
        if p = ''ok.csv'' then Inr frame_xyx
        else if p = ''empty.csv'' then Inl (EmptyDataError, ''No columns to parse from file'')
        else if p = ''bad.csv'' then Inl (ParserError, ''Error tokenizing data'')
        else if p = ''locked.csv'' then Inl (PermissionError, ''[Errno 13] Permission denied'')
        else Inl (FileNotFoundError, ''[Errno 2] No such file or directory'')),
      write_error = (\<lambda>p.
        if p = ''/ro/out.csv'' then Some (PermissionError, ''[Errno 13] Permission denied'')
        else None),
      disk = (\<lambda>p. None)\<rparr>"

text \<open>A world in which the driver's input file exists and cannot be read.\<close>

definition world_unreadable :: world where
  "world_unreadable =
     \<lparr>pd_read_csv = (\<lambda>p. Inl (PermissionError, ''[Errno 13] Permission denied'')),
      write_error = (\<lambda>p. None),
      disk = (\<lambda>p. None)\<rparr>"



text \<open>Frames with a numeric column whose cells are all missing.\<close>

definition frame_bonus :: dataframe where
  "frame_bonus = [(''score'', Float64 [Some 1, None, Some 3]), (''bonus'', Float64 [None, None, None])]"

definition frame_blank :: dataframe where
  "frame_blank = [(''id'', Int64 [7, 8]), (''age'', Float64 [None, None])]"

text \<open>A frame read from a file that has a header and no row: its column is \<open>object\<close>.\<close>

definition frame_header_only :: dataframe where
  "frame_header_only = [(''name'', Object [])]"

text \<open>Columns in which two values tie for most frequent.\<close>

definition frame_ties :: dataframe where
  "frame_ties = [(''city'', Object [Some ''rome'', Some ''oslo'', None, Some ''rome'', Some ''oslo'']),
                 (''seen'', Datetime64 [Some 30, Some 20, Some 20, None, Some 30])]"




section \<open>Properties\<close>

subsection \<open>Selecting rows by a mask\<close>

lemma take_mask_Nil [simp]: "take_mask [] xs = []" "take_mask ms [] = []"
  by (simp_all add: take_mask_def)

lemma take_mask_Cons [simp]:
  "take_mask (m # ms) (x # xs) = (if m then x # take_mask ms xs else take_mask ms xs)"
  by (simp add: take_mask_def)

lemma take_mask_map: "take_mask ms (map f xs) = map f (take_mask ms xs)"
  by (induction ms xs rule: list_induct2') simp_all

lemma cells_select_rows: "cells (select_rows ms c) = take_mask ms (cells c)"
  by (cases c) (simp_all add: take_mask_map)

lemma take_mask_nth:
  "length ms = length xs \<Longrightarrow> take_mask ms xs = map (\<lambda>i. xs ! i) (take_mask ms [0..<length xs])"
proof (induction ms xs rule: list_induct2')
  case (4 m ms x xs)
  have "[0..<length (x # xs)] = 0 # map Suc [0..<length xs]"
    by (simp add: upt_conv_Cons map_Suc_upt del: upt_Suc)
  with 4 show ?case by (simp add: take_mask_map comp_def del: upt_Suc)
qed simp_all

lemma subseq_take_mask: "subseq (take_mask ms xs) xs"
  by (induction ms xs rule: list_induct2') auto

lemma length_rows [simp]: "length (rows df) = shape0 df"
  by (simp add: rows_def)

lemma col_len_wf: "wf_frame df \<Longrightarrow> (n, c) \<in> set df \<Longrightarrow> length (cells c) = shape0 df"
  by (auto simp: wf_frame_def list_all_iff col_len_def)

lemma rows_select:
  assumes wf: "wf_frame df" and len: "length ms = shape0 df"
  shows "rows (map (\<lambda>(n, c). (n, select_rows ms c)) df) = take_mask ms (rows df)"
proof -
  let ?df' = "map (\<lambda>(n, c). (n, select_rows ms c)) df"
  let ?idx = "take_mask ms [0..<shape0 df]"
  have col: "cells (select_rows ms c) = map (\<lambda>i. cells c ! i) ?idx" if "(n, c) \<in> set df" for n c
    using col_len_wf [OF wf that] len take_mask_nth [of ms "cells c"]
    by (simp add: cells_select_rows)
  have n': "shape0 ?df' = length ?idx"
  proof (cases df)
    case Nil
    then show ?thesis by (simp add: shape0_def)
  next
    case (Cons p ps)
    obtain n c where p: "p = (n, c)" by (cases p)
    with Cons have "(n, c) \<in> set df" by simp
    from col [OF this] show ?thesis
      using Cons p by (simp add: shape0_def col_len_def)
  qed
  have r: "row ?df' j = row df (?idx ! j)" if "j < length ?idx" for j
  proof -
    have "row ?df' j = map (\<lambda>(n, c). cells (select_rows ms c) ! j) df"
      by (simp add: row_def comp_def split_def)
    also have "\<dots> = map (\<lambda>(n, c). cells c ! (?idx ! j)) df"
      using col that by (intro map_cong) auto
    finally show ?thesis by (simp add: row_def)
  qed
  have "rows ?df' = map (\<lambda>j. row df (?idx ! j)) [0..<length ?idx]"
    unfolding rows_def n' using r by (intro map_cong) auto
  also have "\<dots> = map (row df) ?idx"
    by (rule nth_equalityI) simp_all
  also have "\<dots> = take_mask ms (rows df)"
    by (simp add: rows_def take_mask_map)
  finally show ?thesis .
qed

lemma wf_select:
  assumes wf: "wf_frame df" and len: "length ms = shape0 df"
  shows "wf_frame (map (\<lambda>(n, c). (n, select_rows ms c)) df)"
proof -
  have "col_len (select_rows ms c) = length (take_mask ms [0..<shape0 df])"
    if "(n, c) \<in> set df" for n c
    using col_len_wf [OF wf that] len take_mask_nth [of ms "cells c"]
    by (simp add: cells_select_rows col_len_def)
  then have all: "\<forall>(n, c) \<in> set df.
      col_len (select_rows ms c) = length (take_mask ms [0..<shape0 df])"
    by auto
  then have "shape0 (map (\<lambda>(n, c). (n, select_rows ms c)) df)
      = length (take_mask ms [0..<shape0 df])"
    by (cases df) (auto simp: shape0_def)
  with all show ?thesis
    by (auto simp: wf_frame_def list_all_iff)
qed

subsection \<open>Duplicate rows\<close>

lemma length_duplicated_from [simp]: "length (duplicated_from seen rs) = length rs"
  by (induction rs arbitrary: seen) simp_all

lemma duplicated_from_filter:
  "take_mask (map Not (duplicated_from seen rs)) rs =
     map (\<lambda>i. rs ! i)
       (filter (\<lambda>i. rs ! i \<notin> set seen \<and> rs ! i \<notin> set (take i rs)) [0..<length rs])"
proof (induction rs arbitrary: seen)
  case Nil
  show ?case by simp
next
  case (Cons r rs)
  have upt: "[0..<length (r # rs)] = 0 # map Suc [0..<length rs]"
    by (simp add: upt_conv_Cons map_Suc_upt del: upt_Suc)
  have shift: "map (\<lambda>i. (r # rs) ! i)
       (filter (\<lambda>i. (r # rs) ! i \<notin> set seen \<and> (r # rs) ! i \<notin> set (take i (r # rs)))
          (map Suc [0..<length rs]))
     = map (\<lambda>i. rs ! i)
       (filter (\<lambda>i. rs ! i \<notin> set (r # seen) \<and> rs ! i \<notin> set (take i rs)) [0..<length rs])"
    by (simp add: filter_map comp_def conj_left_commute del: upt_Suc)
  show ?case
    unfolding upt using Cons.IH [of "r # seen"] shift by (simp del: upt_Suc)
qed

lemma duplicated_first_occurrences:
  "take_mask (map Not (duplicated_from [] rs)) rs = first_occurrences rs"
  using duplicated_from_filter [of "[]" rs] by (simp add: first_occurrences_def)

lemma duplicated_from_set:
  "set (take_mask (map Not (duplicated_from seen rs)) rs) = set rs - set seen \<and>
   distinct (take_mask (map Not (duplicated_from seen rs)) rs)"
  by (induction rs arbitrary: seen) auto

lemma first_occurrences_set [simp]: "set (first_occurrences rs) = set rs"
  using duplicated_from_set [of "[]" rs] by (simp add: duplicated_first_occurrences)

lemma first_occurrences_distinct [simp]: "distinct (first_occurrences rs)"
  using duplicated_from_set [of "[]" rs] by (simp add: duplicated_first_occurrences)

lemma first_occurrences_subseq: "subseq (first_occurrences rs) rs"
  using subseq_take_mask [of "map Not (duplicated_from [] rs)" rs]
  by (simp add: duplicated_first_occurrences)

lemma first_occurrences_length:
  "length (first_occurrences rs)
     + length (filter (\<lambda>i. rs ! i \<in> set (take i rs)) [0..<length rs]) = length rs"
  using sum_length_filter_compl [of "\<lambda>i. rs ! i \<in> set (take i rs)" "[0..<length rs]"]
  by (simp add: first_occurrences_def)

lemma rows_drop_duplicates:
  "wf_frame df \<Longrightarrow> rows (drop_duplicates df) = first_occurrences (rows df)"
  unfolding drop_duplicates_def Let_def duplicated_def
  by (simp add: rows_select duplicated_first_occurrences)

lemma names_drop_duplicates [simp]: "map fst (drop_duplicates df) = map fst df"
  by (simp add: drop_duplicates_def Let_def comp_def split_def)

lemma wf_drop_duplicates: "wf_frame df \<Longrightarrow> wf_frame (drop_duplicates df)"
  unfolding drop_duplicates_def Let_def duplicated_def
  by (simp add: wf_select)

text \<open>
  Claim C2. On a loaded frame, \<open>remove_duplicates\<close> deletes exactly the rows that are equal
  to an earlier row: the rows left are the first occurrences, in their original order
  (a subsequence of the old rows, with no repetition and the same set of rows), the
  column names stay, and the number printed is the number of rows deleted.
\<close>

theorem remove_duplicates_first_occurrences:
  assumes "data self = Some df" and "wf_frame df"
  shows "remove_duplicates self =
           (self\<lparr>data := Some (drop_duplicates df)\<rparr>,
            [Line (''Duplicates removed: '' @ str_int (int (length
               (filter (\<lambda>i. rows df ! i \<in> set (take i (rows df))) [0..<shape0 df]))))])
         \<and> map fst (drop_duplicates df) = map fst df
         \<and> wf_frame (drop_duplicates df)
         \<and> rows (drop_duplicates df) = first_occurrences (rows df)
         \<and> subseq (rows (drop_duplicates df)) (rows df)
         \<and> distinct (rows (drop_duplicates df))
         \<and> set (rows (drop_duplicates df)) = set (rows df)"
proof -
  have r: "rows (drop_duplicates df) = first_occurrences (rows df)"
    using assms(2) by (rule rows_drop_duplicates)
  have "shape0 (drop_duplicates df) = length (first_occurrences (rows df))"
    using r length_rows [of "drop_duplicates df"] by simp
  then have "int (shape0 df) - int (shape0 (drop_duplicates df)) =
      int (length (filter (\<lambda>i. rows df ! i \<in> set (take i (rows df))) [0..<shape0 df]))"
    using first_occurrences_length [of "rows df"] by simp
  then have "remove_duplicates self =
           (self\<lparr>data := Some (drop_duplicates df)\<rparr>,
            [Line (''Duplicates removed: '' @ str_int (int (length
               (filter (\<lambda>i. rows df ! i \<in> set (take i (rows df))) [0..<shape0 df]))))])"
    using assms(1) by (simp add: remove_duplicates_def Let_def)
  then show ?thesis
    using r assms(2) first_occurrences_subseq [of "rows df"]
    by (simp add: wf_drop_duplicates)
qed

theorem remove_duplicates_first_occurrences_witness:
  "wf_frame frame_xyx
   \<and> rows frame_xyx = [[Some (I 1), Some (S ''x'')], [Some (I 2), Some (S ''y'')],
                        [Some (I 1), Some (S ''x'')]]
   \<and> remove_duplicates \<lparr>file_path = ''in.csv'', data = Some frame_xyx\<rparr> =
       (\<lparr>file_path = ''in.csv'',
         data = Some [(''id'', Int64 [1, 2]), (''tag'', Object [Some ''x'', Some ''y''])]\<rparr>,
        [Line ''Duplicates removed: 1''])
   \<and> rows (drop_duplicates frame_xyx) = [[Some (I 1), Some (S ''x'')], [Some (I 2), Some (S ''y'')]]"
proof -
  have d: "data \<lparr>file_path = ''in.csv'', data = Some frame_xyx\<rparr> = Some frame_xyx"
    by simp
  have w: "wf_frame frame_xyx"
    by (simp add: frame_xyx_def wf_frame_def shape0_def col_len_def)
  have rs: "rows frame_xyx = [[Some (I 1), Some (S ''x'')], [Some (I 2), Some (S ''y'')],
                              [Some (I 1), Some (S ''x'')]]"
    by code_simp
  have dd: "drop_duplicates frame_xyx
      = [(''id'', Int64 [1, 2]), (''tag'', Object [Some ''x'', Some ''y''])]"
    by code_simp
  have n: "str_int (int (length (filter (\<lambda>i. rows frame_xyx ! i \<in> set (take i (rows frame_xyx)))
      [0..<shape0 frame_xyx]))) = ''1''"
    by code_simp
  have fo: "first_occurrences (rows frame_xyx)
      = [[Some (I 1), Some (S ''x'')], [Some (I 2), Some (S ''y'')]]"
    by code_simp
  from remove_duplicates_first_occurrences [OF d w] show ?thesis
    using w rs dd n fo by simp
qed

subsection \<open>Running a step twice\<close>






lemma of_char_less_256: "(of_char c :: nat) < 256"
  by (metis of_char_mod_256 mod_less_divisor zero_less_numeral)

lemma is_lower_upper [simp]: "is_lower (upper c) = False"
  by (auto simp: upper_def is_lower_def)

lemma is_upper_lower [simp]: "is_upper (lower c) = False"
  using of_char_less_256 [of c] by (auto simp: lower_def is_upper_def)

lemma is_cased_upper [simp]: "is_cased (upper c) = is_cased c"
  by (auto simp: upper_def is_cased_def is_lower_def is_upper_def)

lemma is_cased_lower [simp]: "is_cased (lower c) = is_cased c"
  using of_char_less_256 [of c] by (auto simp: lower_def is_cased_def is_lower_def is_upper_def)

lemma upper_upper [simp]: "upper (upper c) = upper c"
  using is_lower_upper [of c] by (simp add: upper_def [of "upper c"])

lemma lower_lower [simp]: "lower (lower c) = lower c"
  using is_upper_lower [of c] by (simp add: lower_def [of "lower c"])




lemma str_title_all_strings [simp]:
  "list_all (\<lambda>x. x \<noteq> None) (str_title xs) = list_all (\<lambda>x. x \<noteq> None) xs"
  by (simp add: str_title_def list_all_iff)

lemma to_datetime_coerce_id [simp]: "to_datetime_coerce ts = ts"
  unfolding to_datetime_coerce_def by (rule map_idI) (simp split: option.split)




subsection \<open>Loading\<close>

text \<open>
  Claim C6, as the code has it. The constructor has four kinds of failure, not three.
  \<open>FileNotFoundError\<close>, \<open>EmptyDataError\<close> and \<open>ParserError\<close> are caught: the data is
  \<open>None\<close>, the line printed differs from mode to mode and from the confirmation, and the
  constructor returns. An exception of any other class that \<open>pd.read_csv\<close> raises is not
  caught and leaves the constructor. On success the data is set and the confirmation is
  printed.
\<close>

theorem init_outcomes:
  "(pd_read_csv w path = Inr df \<longrightarrow>
      init w path = Inr (\<lparr>file_path = path, data = Some df\<rparr>, [Line ''Data successfully loaded.'']))
   \<and> (pd_read_csv w path = Inl (FileNotFoundError, msg) \<longrightarrow>
      init w path = Inr (\<lparr>file_path = path, data = None\<rparr>,
                         [Line (''Error: File not found at '' @ path)]))
   \<and> (pd_read_csv w path = Inl (EmptyDataError, msg) \<longrightarrow>
      init w path = Inr (\<lparr>file_path = path, data = None\<rparr>, [Line ''Error: The file is empty.'']))
   \<and> (pd_read_csv w path = Inl (ParserError, msg) \<longrightarrow>
      init w path = Inr (\<lparr>file_path = path, data = None\<rparr>, [Line ''Error: Could not parse the file.'']))
   \<and> (pd_read_csv w path = Inl (cls, msg) \<and>
        cls \<notin> {FileNotFoundError, EmptyDataError, ParserError} \<longrightarrow>
      init w path = Inl (cls, msg))
   \<and> ''Error: File not found at '' @ path \<noteq> ''Error: The file is empty.''
   \<and> ''Error: File not found at '' @ path \<noteq> ''Error: Could not parse the file.''
   \<and> ''Error: The file is empty.'' \<noteq> ''Error: Could not parse the file.''
   \<and> ''Data successfully loaded.'' \<noteq> ''Error: File not found at '' @ path"
  by (simp add: init_def)

theorem init_outcomes_witness:
  "init world_sample ''ok.csv'' =
     Inr (\<lparr>file_path = ''ok.csv'', data = Some frame_xyx\<rparr>, [Line ''Data successfully loaded.''])
   \<and> init world_sample ''gone.csv'' =
     Inr (\<lparr>file_path = ''gone.csv'', data = None\<rparr>, [Line ''Error: File not found at gone.csv''])
   \<and> init world_sample ''empty.csv'' =
     Inr (\<lparr>file_path = ''empty.csv'', data = None\<rparr>, [Line ''Error: The file is empty.''])
   \<and> init world_sample ''bad.csv'' =
     Inr (\<lparr>file_path = ''bad.csv'', data = None\<rparr>, [Line ''Error: Could not parse the file.''])
   \<and> init world_sample ''locked.csv'' = Inl (PermissionError, ''[Errno 13] Permission denied'')"
proof -
  have r1: "pd_read_csv world_sample ''ok.csv'' = Inr frame_xyx"
    by (simp add: world_sample_def)
  have r2: "pd_read_csv world_sample ''gone.csv'' =
      Inl (FileNotFoundError, ''[Errno 2] No such file or directory'')"
    by (simp add: world_sample_def)
  have r3: "pd_read_csv world_sample ''empty.csv'' =
      Inl (EmptyDataError, ''No columns to parse from file'')"
    by (simp add: world_sample_def)
  have r4: "pd_read_csv world_sample ''bad.csv'' = Inl (ParserError, ''Error tokenizing data'')"
    by (simp add: world_sample_def)
  have r5: "pd_read_csv world_sample ''locked.csv'' =
      Inl (PermissionError, ''[Errno 13] Permission denied'')"
    by (simp add: world_sample_def)
  from init_outcomes [of world_sample "''ok.csv''" frame_xyx]
       init_outcomes [of world_sample "''gone.csv''" _ "''[Errno 2] No such file or directory''"]
       init_outcomes [of world_sample "''empty.csv''" _ "''No columns to parse from file''"]
       init_outcomes [of world_sample "''bad.csv''" _ "''Error tokenizing data''"]
       init_outcomes [of world_sample "''locked.csv''" _ "''[Errno 13] Permission denied''"
         PermissionError]
  show ?thesis using r1 r2 r3 r4 r5 by simp
qed

text \<open>
  The claim as written fails where the file cannot be read: \<open>pd.read_csv\<close> raises
  \<open>PermissionError\<close>, none of the three clauses matches, no object is built and the run
  of the script ends there.
\<close>

theorem init_unreadable_counterexample:
  "init world_unreadable ''path_to_dirty_dataset.csv'' =
     Inl (PermissionError, ''[Errno 13] Permission denied'')
   \<and> main world_unreadable = Inl (PermissionError, ''[Errno 13] Permission denied'')"
  by (simp add: init_def main_def world_unreadable_def)

subsection \<open>Steps without data\<close>

text \<open>
  Claim C9. When the data is \<open>None\<close>, each of the six methods returns the object as it
  was and prints one advisory line, \<open>save_clean_data\<close> leaves the world (so every file)
  as it was, and nothing is raised. A run of the driver whose constructor returned such an
  object reaches the end of the script with the world unchanged, having printed the
  constructor's line and the six advisories.
\<close>

theorem no_data_no_effect:
  assumes "data self = None"
  shows "summarize_data self = (self, [Line ''No data to summarize.''])
       \<and> identify_missing_values self = (self, [Line ''No data to analyze for missing values.''])
       \<and> handle_missing_values self = Inr (self, [Line ''No data to handle missing values.''])
       \<and> remove_duplicates self = (self, [Line ''No data from which to remove duplicates.''])
       \<and> fix_inconsistent_formats self = (self, [Line ''No data to fix formats.''])
       \<and> save_clean_data w self output_path = (w, self, [Line ''No data to save.''])
       \<and> (init w ''path_to_dirty_dataset.csv'' = Inr (self, out) \<longrightarrow>
            main w = Inr (w, out @
              [Line ''No data to summarize.'',
               Line ''No data to analyze for missing values.'',
               Line ''No data to handle missing values.'',
               Line ''No data from which to remove duplicates.'',
               Line ''No data to fix formats.'',
               Line ''No data to save.'']))"
  using assms
  by (simp add: summarize_data_def identify_missing_values_def handle_missing_values_def
      remove_duplicates_def fix_inconsistent_formats_def save_clean_data_def main_def)

theorem no_data_no_effect_witness:
  "init world_sample ''path_to_dirty_dataset.csv'' =
     Inr (\<lparr>file_path = ''path_to_dirty_dataset.csv'', data = None\<rparr>,
          [Line ''Error: File not found at path_to_dirty_dataset.csv''])
   \<and> main world_sample = Inr (world_sample,
        [Line ''Error: File not found at path_to_dirty_dataset.csv'',
         Line ''No data to summarize.'',
         Line ''No data to analyze for missing values.'',
         Line ''No data to handle missing values.'',
         Line ''No data from which to remove duplicates.'',
         Line ''No data to fix formats.'',
         Line ''No data to save.''])"
proof -
  have d: "data \<lparr>file_path = ''path_to_dirty_dataset.csv'', data = None\<rparr> = None"
    by simp
  have i: "init world_sample ''path_to_dirty_dataset.csv'' =
     Inr (\<lparr>file_path = ''path_to_dirty_dataset.csv'', data = None\<rparr>,
          [Line ''Error: File not found at path_to_dirty_dataset.csv''])"
    by (simp add: init_def world_sample_def)
  from no_data_no_effect [OF d, of world_sample _
      "[Line ''Error: File not found at path_to_dirty_dataset.csv'']"] i
  show ?thesis by simp
qed

subsection \<open>Saving\<close>

lemma csv_records_no_index:
  "csv_records df False = map Name (map fst df) # map (map Cell) (rows df)"
  by (simp add: csv_records_def rows_def comp_def split_def)

text \<open>
  Claim C8. With data present, \<open>save_clean_data\<close> writes the records of the frame: first
  the record of the column names, then one record per row holding that row's cells and
  nothing else (as many fields as the frame has columns, so no index field), and prints
  the confirmation. If the write raises, the world and the object stay as they were, the
  line printed ends with the exception's message, and the method returns.
\<close>

theorem save_clean_data_spec:
  assumes "data self = Some df"
  shows "(write_error w output_path = None \<longrightarrow>
            save_clean_data w self output_path =
              (w\<lparr>disk := (disk w)(output_path \<mapsto>
                   map Name (map fst df) # map (map Cell) (rows df))\<rparr>,
               self, [Line (''Cleaned data saved to '' @ output_path)]))
       \<and> (\<forall>cls msg. write_error w output_path = Some (cls, msg) \<longrightarrow>
            save_clean_data w self output_path =
              (w, self, [Line (''Error when saving data: '' @ msg)]))
       \<and> (\<forall>r \<in> set (map (map Cell) (rows df)). length r = length df)"
  using assms
  by (auto simp: save_clean_data_def to_csv_def csv_records_no_index rows_def row_def)

theorem save_clean_data_spec_witness:
  "save_clean_data world_sample \<lparr>file_path = ''in.csv'', data = Some frame_xyx\<rparr> ''out.csv'' =
     (world_sample\<lparr>disk := (disk world_sample)(''out.csv'' \<mapsto>
         [[Name ''id'', Name ''tag''],
          [Cell (Some (I 1)), Cell (Some (S ''x''))],
          [Cell (Some (I 2)), Cell (Some (S ''y''))],
          [Cell (Some (I 1)), Cell (Some (S ''x''))]])\<rparr>,
      \<lparr>file_path = ''in.csv'', data = Some frame_xyx\<rparr>,
      [Line ''Cleaned data saved to out.csv''])
   \<and> save_clean_data world_sample \<lparr>file_path = ''in.csv'', data = Some frame_xyx\<rparr> ''/ro/out.csv'' =
     (world_sample,
      \<lparr>file_path = ''in.csv'', data = Some frame_xyx\<rparr>,
      [Line ''Error when saving data: [Errno 13] Permission denied''])"
proof -
  have d: "data \<lparr>file_path = ''in.csv'', data = Some frame_xyx\<rparr> = Some frame_xyx"
    by simp
  have rs: "rows frame_xyx = [[Some (I 1), Some (S ''x'')], [Some (I 2), Some (S ''y'')],
                              [Some (I 1), Some (S ''x'')]]"
    by code_simp
  have n: "map fst frame_xyx = [''id'', ''tag'']"
    by (simp add: frame_xyx_def)
  have w1: "write_error world_sample ''out.csv'' = None"
    by (simp add: world_sample_def)
  have w2: "write_error world_sample ''/ro/out.csv'' =
      Some (PermissionError, ''[Errno 13] Permission denied'')"
    by (simp add: world_sample_def)
  from save_clean_data_spec [OF d, of world_sample "''out.csv''"]
       save_clean_data_spec [OF d, of world_sample "''/ro/out.csv''"]
  show ?thesis using w1 w2 rs n by simp
qed

subsection \<open>Mean and mode\<close>

lemma foldr_max_ge: "n \<in> set ns \<Longrightarrow> n \<le> foldr max ns (0::nat)"
  by (induction ns) auto

lemma foldr_max_mem: "ns \<noteq> [] \<Longrightarrow> foldr max ns (0::nat) \<in> set ns"
proof (induction ns)
  case Nil
  then show ?case by simp
next
  case (Cons n ns)
  show ?case
  proof (cases "ns = []")
    case True
    then show ?thesis by simp
  next
    case False
    with Cons.IH show ?thesis by (auto simp: max_def)
  qed
qed

lemma max_count_ge: "v \<in> set vs \<Longrightarrow> count_list vs v \<le> max_count vs"
  unfolding max_count_def by (rule foldr_max_ge) simp

lemma max_count_attained: "vs \<noteq> [] \<Longrightarrow> \<exists>v \<in> set vs. count_list vs v = max_count vs"
  using foldr_max_mem [of "map (count_list vs) vs"] by (auto simp: max_count_def)

lemma most_frequent_iff:
  "most_frequent vs m \<longleftrightarrow> m \<in> set vs \<and> count_list vs m = max_count vs"
proof (cases "vs = []")
  case True
  then show ?thesis by (simp add: most_frequent_def)
next
  case False
  from max_count_attained [OF this] obtain u where u: "u \<in> set vs" "count_list vs u = max_count vs"
    by blast
  show ?thesis
  proof
    assume mf: "most_frequent vs m"
    then have "max_count vs \<le> count_list vs m" using u by (auto simp: most_frequent_def)
    moreover from mf have "count_list vs m \<le> max_count vs"
      by (simp add: most_frequent_def max_count_ge)
    ultimately show "m \<in> set vs \<and> count_list vs m = max_count vs"
      using mf by (simp add: most_frequent_def)
  next
    assume "m \<in> set vs \<and> count_list vs m = max_count vs"
    then show "most_frequent vs m" by (simp add: most_frequent_def max_count_ge)
  qed
qed

lemma set_mode: "set (mode xs) = set (filter (most_frequent (dropna xs)) (dropna xs))"
  by (auto simp: mode_def Let_def most_frequent_iff)

lemma sorted_mode: "sorted (mode xs)"
  by (simp add: mode_def Let_def)

lemma mode_nonempty: "dropna xs \<noteq> [] \<Longrightarrow> mode xs \<noteq> []"
proof -
  assume "dropna xs \<noteq> []"
  from max_count_attained [OF this] have "set (mode xs) \<noteq> {}"
    by (auto simp: set_mode most_frequent_iff filter_empty_conv)
  then show ?thesis by auto
qed

lemma mode_empty: "dropna xs = [] \<Longrightarrow> mode xs = []"
  by (simp add: mode_def)

lemma mode0_smallest:
  assumes "dropna xs \<noteq> []"
  shows "mode0 xs = Inr (smallest_most_frequent (dropna xs))"
proof -
  from mode_nonempty [OF assms] obtain m ms where ms: "mode xs = m # ms"
    by (cases "mode xs") auto
  have "\<forall>v \<in> set (mode xs). m \<le> v"
    using sorted_mode [of xs] by (auto simp: ms)
  moreover have "m \<in> set (mode xs)" by (simp add: ms)
  ultimately have "Min (set (mode xs)) = m"
    by (intro Min_eqI) auto
  then have "smallest_most_frequent (dropna xs) = m"
    unfolding smallest_most_frequent_def set_mode [symmetric] .
  then show ?thesis
    by (simp add: mode0_def ms)
qed

lemma smallest_most_frequent_props:
  assumes "vs \<noteq> []"
  shows "most_frequent vs (smallest_most_frequent vs)"
    and "most_frequent vs v \<Longrightarrow> smallest_most_frequent vs \<le> v"
proof -
  let ?M = "set (filter (most_frequent vs) vs)"
  from max_count_attained [OF assms] have ne: "?M \<noteq> {}"
    by (auto simp: most_frequent_iff filter_empty_conv)
  have "Min ?M \<in> ?M" using ne by (intro Min_in) auto
  then show "most_frequent vs (smallest_most_frequent vs)"
    by (simp add: smallest_most_frequent_def)
  assume "most_frequent vs v"
  then have "v \<in> ?M" by (simp add: most_frequent_def)
  then show "smallest_most_frequent vs \<le> v"
    unfolding smallest_most_frequent_def by (intro Min_le) auto
qed

lemma mode0_empty: "dropna xs = [] \<Longrightarrow> mode0 xs = Inl (KeyError, ''0'')"
  by (simp add: mode0_def mode_empty)

lemma dropna_map_option: "dropna (map (map_option f) xs) = map f (dropna xs)"
  by (induction xs) (auto split: option.split)

lemma dropna_map_Some [simp]: "dropna (map Some xs) = xs"
  by (induction xs) auto

lemma dropna_map_Some_fun: "dropna (map (\<lambda>x. Some (f x)) xs) = map f xs"
  by (induction xs) auto

lemma fillna_Some: "fillna (Some v) xs = replace_missing v xs"
  by (simp add: fillna_def replace_missing_def)

lemma fillna_None [simp]: "fillna None xs = xs"
  unfolding fillna_def by (rule map_idI) (simp split: option.split)

lemma has_value_simps [simp]:
  "has_value (Float64 xs) = (dropna xs \<noteq> [])"
  "has_value (Int64 is) = (is \<noteq> [])"
  "has_value (Boolean bs) = (bs \<noteq> [])"
  "has_value (Object ss) = (dropna ss \<noteq> [])"
  "has_value (Datetime64 ts) = (dropna ts \<noteq> [])"
  by (simp_all add: has_value_def dropna_map_option dropna_map_Some_fun)

lemma mean_Some: "dropna xs \<noteq> [] \<Longrightarrow> mean xs = Some (arithmetic_mean (dropna xs))"
  by (simp add: mean_def arithmetic_mean_def Let_def)

lemma mean_None: "dropna xs = [] \<Longrightarrow> mean xs = None"
  by (simp add: mean_def Let_def)

subsection \<open>Imputation\<close>

lemma impute_column_has_value: "has_value c \<Longrightarrow> impute_column c = Inr (impute_spec c)"
  by (cases c) (simp_all add: mean_Some mode0_smallest fillna_Some)


lemma impute_column_no_value: "\<not> has_value c \<Longrightarrow> numeric c \<Longrightarrow> impute_column c = Inr c"
  by (cases c) (simp_all add: mean_None)

lemma impute_column_KeyError:
  "\<not> has_value c \<Longrightarrow> \<not> numeric c \<Longrightarrow> impute_column c = Inl (KeyError, ''0'')"
  by (cases c) (simp_all add: mode0_empty)

lemma impute_columns_mode_defined:
  "mode_defined df \<Longrightarrow>
     impute_columns df = Inr (map (\<lambda>(n, c). (n, if has_value c then impute_spec c else c)) df)"
  unfolding mode_defined_def
  by (induction df) (auto simp: impute_column_has_value impute_column_no_value)

lemma handle_missing_values_mode_defined:
  "data self = Some df \<Longrightarrow> mode_defined df \<Longrightarrow>
     handle_missing_values self =
       Inr (self\<lparr>data := Some (map (\<lambda>(n, c). (n, if has_value c then impute_spec c else c)) df)\<rparr>,
            [Line ''Missing values handled by mean/mode imputation.''])"
  by (simp add: handle_missing_values_def impute_columns_mode_defined)

text \<open>
  A column that is not numeric and has no value makes \<open>mode()[0]\<close> raise: so does the
  column of a file with a header and no row.
\<close>

lemma handle_missing_values_header_only:
  "handle_missing_values \<lparr>file_path = ''in.csv'', data = Some frame_header_only\<rparr> =
     Inl (KeyError, ''0'')"
  by (simp add: handle_missing_values_def frame_header_only_def mode0_empty)




text \<open>
  Claim C3, as the code has it. On a loaded frame in which every column without a present
  value is numeric, \<open>handle_missing_values\<close> returns normally and prints the confirmation
  line and nothing else; every column without a present value is afterwards exactly what
  it was, its cells still missing. Being a function of the frame, the outcome is
  deterministic.
\<close>

theorem handle_missing_values_all_missing:
  assumes "data self = Some df" and "mode_defined df"
  shows "\<exists>df'. handle_missing_values self =
             Inr (self\<lparr>data := Some df'\<rparr>, [Line ''Missing values handled by mean/mode imputation.''])
           \<and> list_all2 (\<lambda>(n, c) (n', c'). n' = n \<and> (\<not> has_value c \<longrightarrow> c' = c)) df df'"
proof -
  let ?df' = "map (\<lambda>(n, c). (n, if has_value c then impute_spec c else c)) df"
  have "list_all2 (\<lambda>(n, c) (n', c'). n' = n \<and> (\<not> has_value c \<longrightarrow> c' = c)) df ?df'"
    by (auto simp: list_all2_map2 split_def intro!: list_all2_same [THEN iffD2])
  then show ?thesis
    using handle_missing_values_mode_defined [OF assms] by blast
qed

theorem handle_missing_values_all_missing_witness:
  "mode_defined frame_bonus
   \<and> \<not> has_value (Float64 [None, None, None])
   \<and> handle_missing_values \<lparr>file_path = ''in.csv'', data = Some frame_bonus\<rparr> =
     Inr (\<lparr>file_path = ''in.csv'',
           data = Some [(''score'', Float64 [Some 1, Some 2, Some 3]),
                        (''bonus'', Float64 [None, None, None])]\<rparr>,
          [Line ''Missing values handled by mean/mode imputation.''])"
proof -
  have d: "data \<lparr>file_path = ''in.csv'', data = Some frame_bonus\<rparr> = Some frame_bonus"
    by simp
  have h: "mode_defined frame_bonus"
    by (simp add: frame_bonus_def mode_defined_def)
  have e: "impute_columns frame_bonus =
      Inr [(''score'', Float64 [Some 1, Some 2, Some 3]), (''bonus'', Float64 [None, None, None])]"
    by (simp add: frame_bonus_def mean_def fillna_def)
  from handle_missing_values_all_missing [OF d h] show ?thesis
    using e h by (simp add: handle_missing_values_def)
qed

text \<open>
  The claim as written asks for a failure or a skip with a diagnostic. On a frame with an
  all-missing column the method completes, the only line printed is the usual
  confirmation, and the two cells of the column are still missing.
\<close>

theorem handle_missing_values_blank_counterexample:
  "handle_missing_values \<lparr>file_path = ''in.csv'', data = Some frame_blank\<rparr> =
     Inr (\<lparr>file_path = ''in.csv'', data = Some frame_blank\<rparr>,
          [Line ''Missing values handled by mean/mode imputation.''])
   \<and> isnull_sum (snd (frame_blank ! 1)) = 2"
  by (simp add: handle_missing_values_def frame_blank_def mean_def fillna_def isnull_sum_def)

text \<open>
  Claim C10. On a loaded frame in which every column that is not numeric has a present
  value, \<open>handle_missing_values\<close> returns normally and every such column comes out with
  its missing cells filled by one value fixed by the column alone: for a text or datetime
  column the smallest of the column's most frequent present values, which is most
  frequent and below which there is no most frequent value.
\<close>

theorem mode_tie_smallest:
  assumes "data self = Some df" and "mode_defined df"
  shows "\<exists>df'. handle_missing_values self =
             Inr (self\<lparr>data := Some df'\<rparr>, [Line ''Missing values handled by mean/mode imputation.''])
           \<and> list_all2 (\<lambda>(n, c) (n', c'). n' = n \<and> (\<not> numeric c \<longrightarrow> c' = impute_spec c)) df df'
           \<and> (\<forall>n xs. (n, Object xs) \<in> set df \<longrightarrow>
                most_frequent (dropna xs) (smallest_most_frequent (dropna xs))
                \<and> (\<forall>v. most_frequent (dropna xs) v \<longrightarrow> smallest_most_frequent (dropna xs) \<le> v))
           \<and> (\<forall>n ts. (n, Datetime64 ts) \<in> set df \<longrightarrow>
                most_frequent (dropna ts) (smallest_most_frequent (dropna ts))
                \<and> (\<forall>v. most_frequent (dropna ts) v \<longrightarrow> smallest_most_frequent (dropna ts) \<le> v))"
proof -
  let ?df' = "map (\<lambda>(n, c). (n, if has_value c then impute_spec c else c)) df"
  have hv: "has_value c" if "(n, c) \<in> set df" "\<not> numeric c" for n c
    using that assms(2) by (auto simp: mode_defined_def list_all_iff)
  then have "list_all2 (\<lambda>(n, c) (n', c'). n' = n \<and> (\<not> numeric c \<longrightarrow> c' = impute_spec c)) df ?df'"
    by (auto simp: list_all2_map2 split_def intro!: list_all2_same [THEN iffD2])
  moreover have "most_frequent (dropna xs) (smallest_most_frequent (dropna xs))
      \<and> (\<forall>v. most_frequent (dropna xs) v \<longrightarrow> smallest_most_frequent (dropna xs) \<le> v)"
    if "(n, Object xs) \<in> set df" for n xs
    using hv [OF that] by (simp add: smallest_most_frequent_props)
  moreover have "most_frequent (dropna ts) (smallest_most_frequent (dropna ts))
      \<and> (\<forall>v. most_frequent (dropna ts) v \<longrightarrow> smallest_most_frequent (dropna ts) \<le> v)"
    if "(n, Datetime64 ts) \<in> set df" for n ts
    using hv [OF that] by (simp add: smallest_most_frequent_props)
  ultimately show ?thesis
    using handle_missing_values_mode_defined [OF assms] by blast
qed

theorem mode_tie_smallest_witness:
  "mode_defined frame_ties
   \<and> handle_missing_values \<lparr>file_path = ''in.csv'', data = Some frame_ties\<rparr> =
     Inr (\<lparr>file_path = ''in.csv'',
           data = Some [(''city'', Object [Some ''rome'', Some ''oslo'', Some ''oslo'', Some ''rome'', Some ''oslo'']),
                        (''seen'', Datetime64 [Some 30, Some 20, Some 20, Some 20, Some 30])]\<rparr>,
          [Line ''Missing values handled by mean/mode imputation.''])
   \<and> most_frequent [''rome'', ''oslo'', ''rome'', ''oslo''] ''rome''
   \<and> most_frequent [''rome'', ''oslo'', ''rome'', ''oslo''] ''oslo''
   \<and> smallest_most_frequent [''rome'', ''oslo'', ''rome'', ''oslo''] = ''oslo''"
proof -
  have d: "data \<lparr>file_path = ''in.csv'', data = Some frame_ties\<rparr> = Some frame_ties"
    by simp
  have h: "mode_defined frame_ties"
    by (simp add: frame_ties_def mode_defined_def)
  have m: "most_frequent [''rome'', ''oslo'', ''rome'', ''oslo''] ''rome''"
      "most_frequent [''rome'', ''oslo'', ''rome'', ''oslo''] ''oslo''"
    by (simp_all add: most_frequent_def)
  have s: "smallest_most_frequent [''rome'', ''oslo'', ''rome'', ''oslo''] = ''oslo''"
    by (simp add: smallest_most_frequent_def most_frequent_def)
  have e: "impute_columns frame_ties =
      Inr [(''city'', Object [Some ''rome'', Some ''oslo'', Some ''oslo'', Some ''rome'', Some ''oslo'']),
           (''seen'', Datetime64 [Some 30, Some 20, Some 20, Some 20, Some 30])]"
    by (simp add: frame_ties_def mode0_def mode_def max_count_def fillna_def)
  from mode_tie_smallest [OF d h] show ?thesis
    using e h m s by (simp add: handle_missing_values_def)
qed

subsection \<open>Format fixing\<close>










end
